theory Spec2Isabelle
  imports Main
begin

section \<open>The shaping controller (shaper/shaping-controller.py)\<close>

text \<open>
  The controller keeps one global, \<open>current_policy\<close>, and drives the kernel packet
  scheduler through shell commands only (\<open>run_command\<close>). The model threads a
  \<open>world\<close> through every function: the global, and the commands handed to the shell
  so far, oldest first. What a command does is not in the repository, so the shell
  is a parameter: a function from the commands issued before and the command issued
  now to what \<open>subprocess.run\<close> does with it.
\<close>

subsection \<open>Data\<close>

text \<open>
  One entry of \<open>classes\<close> in an htb policy, read through the keys the controller
  looks at. A key that is absent from the JSON object is \<open>None\<close>.
\<close>

record class_cfg =
  c_rate :: "string option"
  c_ceil :: "string option"

text \<open>
  One policy of \<open>/app/policies.json\<close>, read through the keys the controller looks
  at: \<open>type\<close>, the cake keys, the netem keys and the htb keys. Parameter values are
  JSON strings, \<open>features\<close> is a list of strings, \<open>classes\<close> a list of objects.
\<close>

record policy =
  p_type :: "string option"
  bandwidth :: "string option"
  rtt :: "string option"
  features :: "string list option"
  delay :: "string option"
  jitter :: "string option"
  loss :: "string option"
  rate :: "string option"
  total_bandwidth :: "string option"
  classes :: "class_cfg list option"

text \<open>The dictionary \<open>current_policy\<close>; the key \<open>config\<close> is absent at start and after a clear.\<close>

record active_policy =
  name :: string
  status :: string
  config :: "policy option"

text \<open>What \<open>subprocess.run\<close> does: it returns (return code, stdout, stderr) or raises.\<close>

datatype proc = Exited int string string | Raised string

type_synonym shell = "string list \<Rightarrow> string \<Rightarrow> proc"

text \<open>The dictionary \<open>run_command\<close> returns; its \<open>except\<close> branch has no key \<open>output\<close>.\<close>

record cmd_result =
  cr_success :: bool
  cr_output :: "string option"
  cr_error :: string

text \<open>The exceptions that leave a function of the controller.\<close>

datatype exn = KeyError string | FileError string | AttributeError string

text \<open>
  What reading \<open>/app/policies.json\<close> gives at one call: an exception (\<open>open\<close> or
  \<open>json.load\<close> raises), or the dictionary from policy names to policies. The file may
  differ from call to call, so it is an argument of the call.
\<close>

type_synonym catalog = "exn + (string \<rightharpoonup> policy)"

record world =
  current_policy :: active_policy
  issued :: "string list"

text \<open>The dictionaries \<open>apply_policy\<close> returns: \<open>success\<close> and a subset of the other keys.\<close>

record response =
  success :: bool
  r_policy :: "string option"
  message :: "string option"
  error :: "string option"
  command :: "string option"
  r_type :: "string option"

record clear_result =
  cl_status :: string
  cl_interface :: string

definition resp :: "bool \<Rightarrow> response" where
  "resp b = \<lparr>success = b, r_policy = None, message = None, error = None,
     command = None, r_type = None\<rparr>"

text \<open>The literal \<open>{"type": "none"}\<close> stored for \<open>no_shaping\<close>.\<close>

definition none_config :: policy where
  "none_config = \<lparr>p_type = Some ''none'', bandwidth = None, rtt = None, features = None,
     delay = None, jitter = None, loss = None, rate = None, total_bandwidth = None,
     classes = None\<rparr>"

text \<open>The module-level initial value of \<open>current_policy\<close>, also written by the clear endpoint.\<close>

definition inactive :: active_policy where
  "inactive = \<lparr>name = ''none'', status = ''inactive'', config = None\<rparr>"

definition active :: "string \<Rightarrow> policy \<Rightarrow> active_policy" where
  "active policy_name cfg = \<lparr>name = policy_name, status = ''active'', config = Some cfg\<rparr>"

subsection \<open>Strings\<close>

text \<open>Python's \<open>str\<close> on a non-negative integer: its decimal digits.\<close>

fun str_nat :: "nat \<Rightarrow> string" where
  "str_nat n = (if n < 10 then [''0123456789'' ! n]
     else str_nat (n div 10) @ [''0123456789'' ! (n mod 10)])"

declare str_nat.simps [simp del]

text \<open>Python's \<open>sep.join(xs)\<close>.\<close>

fun join :: "string \<Rightarrow> string list \<Rightarrow> string" where
  "join sep [] = []"
| "join sep [x] = x"
| "join sep (x # y # ys) = x @ sep @ join sep (y # ys)"

text \<open>The parameter \<open>interface="eth1"\<close> of \<open>clear_shaping\<close> and \<open>apply_policy\<close>.\<close>

definition arg_interface :: "string option \<Rightarrow> string" where
  "arg_interface a = (case a of None \<Rightarrow> ''eth1'' | Some i \<Rightarrow> i)"

subsection \<open>Running commands\<close>

definition run_command :: "shell \<Rightarrow> string \<Rightarrow> world \<Rightarrow> cmd_result \<times> world" where
  "run_command sh cmd w =
     ((case sh (issued w) cmd of
         Exited rc out err \<Rightarrow> \<lparr>cr_success = (rc = 0), cr_output = Some out, cr_error = err\<rparr>
       | Raised e \<Rightarrow> \<lparr>cr_success = False, cr_output = None, cr_error = e\<rparr>),
      w\<lparr>issued := issued w @ [cmd]\<rparr>)"

definition clear_cmd :: "string \<Rightarrow> string" where
  "clear_cmd interface = ''tc qdisc del dev '' @ interface @ '' root 2>/dev/null || true''"

definition clear_shaping :: "shell \<Rightarrow> string option \<Rightarrow> world \<Rightarrow> clear_result \<times> world" where
  "clear_shaping sh a w =
     (let interface = arg_interface a;
          (_, w') = run_command sh (clear_cmd interface) w
      in (\<lparr>cl_status = ''cleared'', cl_interface = interface\<rparr>, w'))"

subsection \<open>The command text of each policy type\<close>

text \<open>The \<open>cake\<close> branch; \<open>policy['bandwidth']\<close> raises when the key is absent.\<close>

definition cake_cmd :: "string \<Rightarrow> policy \<Rightarrow> exn + string" where
  "cake_cmd interface p =
     (case bandwidth p of
        None \<Rightarrow> Inl (KeyError ''bandwidth'')
      | Some bw \<Rightarrow>
          Inr (''tc qdisc add dev '' @ interface @ '' root cake bandwidth '' @ bw
            @ (case rtt p of None \<Rightarrow> [] | Some r \<Rightarrow> '' rtt '' @ r)
            @ (case features p of None \<Rightarrow> [] | Some fs \<Rightarrow> '' '' @ join '' '' fs)))"

text \<open>The \<open>netem\<close> branch: four tests, each appending to \<open>cmd\<close>.\<close>

definition netem_cmd :: "string \<Rightarrow> policy \<Rightarrow> string" where
  "netem_cmd interface p =
     (let cmd = ''tc qdisc add dev '' @ interface @ '' root netem'';
          cmd = (case delay p of None \<Rightarrow> cmd | Some d \<Rightarrow> cmd @ '' delay '' @ d);
          cmd = (case jitter p of None \<Rightarrow> cmd | Some j \<Rightarrow> cmd @ '' '' @ j);
          cmd = (case loss p of None \<Rightarrow> cmd | Some l \<Rightarrow> cmd @ '' loss '' @ l);
          cmd = (case rate p of None \<Rightarrow> cmd | Some r \<Rightarrow> cmd @ '' rate '' @ r)
      in cmd)"

text \<open>The \<open>htb\<close> branch. The two commands appended for the class numbered \<open>i\<close>:\<close>

definition class_add_cmd :: "string \<Rightarrow> nat \<Rightarrow> string \<Rightarrow> string \<Rightarrow> string" where
  "class_add_cmd interface i r c =
     ''tc class add dev '' @ interface @ '' parent 1:1 classid 1:'' @ str_nat i
       @ '' htb rate '' @ r @ '' ceil '' @ c"

definition leaf_cmd :: "string \<Rightarrow> nat \<Rightarrow> string" where
  "leaf_cmd interface i =
     ''tc qdisc add dev '' @ interface @ '' parent 1:'' @ str_nat i
       @ '' handle '' @ str_nat i @ '': fq_codel''"

text \<open>
  The loop \<open>for i, class_cfg in enumerate(policy['classes'], start=10)\<close>, from the
  counter \<open>i\<close> on; \<open>class_cfg['rate']\<close> raises when the key is absent, \<open>ceil\<close>
  defaults to the rate.
\<close>

fun class_commands :: "string \<Rightarrow> nat \<Rightarrow> class_cfg list \<Rightarrow> exn + string list" where
  "class_commands interface i [] = Inr []"
| "class_commands interface i (class_cfg # rest) =
     (case c_rate class_cfg of
        None \<Rightarrow> Inl (KeyError ''rate'')
      | Some r \<Rightarrow>
          (case class_commands interface (Suc i) rest of
             Inl e \<Rightarrow> Inl e
           | Inr cmds \<Rightarrow>
               Inr (class_add_cmd interface i r (case c_ceil class_cfg of None \<Rightarrow> r | Some c \<Rightarrow> c)
                 # leaf_cmd interface i # cmds)))"

definition htb_commands :: "string \<Rightarrow> policy \<Rightarrow> exn + string list" where
  "htb_commands interface p =
     (case total_bandwidth p of
        None \<Rightarrow> Inl (KeyError ''total_bandwidth'')
      | Some tb \<Rightarrow>
          (case classes p of
             None \<Rightarrow> Inl (KeyError ''classes'')
           | Some cs \<Rightarrow>
               (case class_commands interface 10 cs of
                  Inl e \<Rightarrow> Inl e
                | Inr cmds \<Rightarrow>
                    Inr ((''tc qdisc add dev '' @ interface @ '' root handle 1: htb default 30'')
                      # (''tc class add dev '' @ interface @ '' parent 1: classid 1:1 htb rate '' @ tb)
                      # cmds))))"

text \<open>
  The loop \<open>for cmd in commands\<close>: \<open>Some\<close> of the failed result and its command when
  the loop returns early, \<open>None\<close> when it runs to the end.
\<close>

fun run_commands :: "shell \<Rightarrow> string list \<Rightarrow> world \<Rightarrow> (cmd_result \<times> string) option \<times> world" where
  "run_commands sh [] w = (None, w)"
| "run_commands sh (cmd # cmds) w =
     (let (result, w') = run_command sh cmd w
      in if \<not> cr_success result then (Some (result, cmd), w')
         else run_commands sh cmds w')"

subsection \<open>apply_policy\<close>

text \<open>The tail of \<open>apply_policy\<close> for cake and netem: run the one command.\<close>

definition execute :: "shell \<Rightarrow> string \<Rightarrow> policy \<Rightarrow> string \<Rightarrow> world \<Rightarrow> (exn + response) \<times> world" where
  "execute sh policy_name p cmd w =
     (let (result, w') = run_command sh cmd w
      in if cr_success result
         then (Inr ((resp True)\<lparr>r_policy := Some policy_name, command := Some cmd\<rparr>),
               w'\<lparr>current_policy := active policy_name p\<rparr>)
         else (Inr ((resp False)\<lparr>error := Some (cr_error result), command := Some cmd\<rparr>), w'))"

definition apply_policy ::
  "shell \<Rightarrow> catalog \<Rightarrow> string \<Rightarrow> string option \<Rightarrow> world \<Rightarrow> (exn + response) \<times> world" where
  "apply_policy sh pf policy_name a w =
     (let interface = arg_interface a;
          (_, w1) = clear_shaping sh (Some interface) w
      in if policy_name = ''no_shaping''
         then (Inr ((resp True)\<lparr>r_policy := Some policy_name,
                      message := Some ''No shaping applied''\<rparr>),
               w1\<lparr>current_policy := active policy_name none_config\<rparr>)
         else
           (case pf of
              Inl e \<Rightarrow> (Inl e, w1)
            | Inr policies \<Rightarrow>
                (case policies policy_name of
                   None \<Rightarrow>
                     (Inr ((resp False)\<lparr>error :=
                        Some (''Policy '' @ [CHR 0x27] @ policy_name @ [CHR 0x27] @ '' not found'')\<rparr>), w1)
                 | Some p \<Rightarrow>
                     (case p_type p of
                        None \<Rightarrow> (Inl (KeyError ''type''), w1)
                      | Some t \<Rightarrow>
                          if t = ''cake'' then
                            (case cake_cmd interface p of
                               Inl e \<Rightarrow> (Inl e, w1)
                             | Inr cmd \<Rightarrow> execute sh policy_name p cmd w1)
                          else if t = ''netem'' then
                            execute sh policy_name p (netem_cmd interface p) w1
                          else if t = ''htb'' then
                            (case htb_commands interface p of
                               Inl e \<Rightarrow> (Inl e, w1)
                             | Inr commands \<Rightarrow>
                                 (case run_commands sh commands w1 of
                                    (Some (result, cmd), w2) \<Rightarrow>
                                      (Inr ((resp False)\<lparr>error := Some (cr_error result),
                                              command := Some cmd\<rparr>), w2)
                                  | (None, w2) \<Rightarrow>
                                      (Inr ((resp True)\<lparr>r_policy := Some policy_name,
                                              r_type := Some ''htb''\<rparr>),
                                       w2\<lparr>current_policy := active policy_name p\<rparr>)))
                          else
                            (Inr ((resp False)\<lparr>error := Some (''Unknown policy type: '' @ t)\<rparr>),
                             w1)))))"

subsection \<open>The endpoints\<close>

text \<open>\<open>GET /health\<close>: the global as it is; no command is run.\<close>

definition health :: "world \<Rightarrow> string \<times> active_policy" where
  "health w = (''healthy'', current_policy w)"

text \<open>
  \<open>POST /policy/apply\<close>. The body \<open>request.json\<close> is \<open>None\<close> or a dictionary;
  \<open>None.get\<close> raises. The second component of the answer is the HTTP status.
\<close>

definition apply_policy_endpoint ::
  "shell \<Rightarrow> catalog \<Rightarrow> (string \<rightharpoonup> string) option \<Rightarrow> world
     \<Rightarrow> (exn + response \<times> nat) \<times> world" where
  "apply_policy_endpoint sh pf body w =
     (case body of
        None \<Rightarrow> (Inl (AttributeError ''get''), w)
      | Some data \<Rightarrow>
          (let interface = (case data ''interface'' of None \<Rightarrow> ''eth1'' | Some i \<Rightarrow> i)
           in case data ''policy'' of
                None \<Rightarrow> (Inr ((resp False)\<lparr>error := Some ''Policy name required''\<rparr>, 400), w)
              | Some policy_name \<Rightarrow>
                  if policy_name = [] then
                    (Inr ((resp False)\<lparr>error := Some ''Policy name required''\<rparr>, 400), w)
                  else
                    (case apply_policy sh pf policy_name (Some interface) w of
                       (Inl e, w') \<Rightarrow> (Inl e, w')
                     | (Inr result, w') \<Rightarrow>
                         (Inr (result, if success result then 200 else 400), w'))))"

text \<open>\<open>POST /policy/clear\<close>: \<open>request.json or {}\<close>, so a missing body is the empty dictionary.\<close>

definition clear_policy_endpoint ::
  "shell \<Rightarrow> (string \<rightharpoonup> string) option \<Rightarrow> world \<Rightarrow> (bool \<times> clear_result) \<times> world" where
  "clear_policy_endpoint sh body w =
     (let data = (case body of None \<Rightarrow> Map.empty | Some d \<Rightarrow> d);
          interface = (case data ''interface'' of None \<Rightarrow> ''eth1'' | Some i \<Rightarrow> i);
          (result, w') = clear_shaping sh (Some interface) w
      in ((True, result), w'\<lparr>current_policy := inactive\<rparr>))"

text \<open>
  \<open>GET /policy/current\<close>: the global and the output of \<open>tc qdisc show dev eth1\<close>;
  \<open>tc_result['output']\<close> raises when \<open>run_command\<close> took its \<open>except\<close> branch.
\<close>

definition get_current_policy :: "shell \<Rightarrow> world \<Rightarrow> (exn + active_policy \<times> string) \<times> world" where
  "get_current_policy sh w =
     (let (tc_result, w') = run_command sh ''tc qdisc show dev eth1'' w
      in case cr_output tc_result of
           None \<Rightarrow> (Inl (KeyError ''output''), w')
         | Some out \<Rightarrow> (Inr (current_policy w', out), w'))"

text \<open>An apply has failed when it raised or answered \<open>"success": False\<close>.\<close>

definition failed :: "exn + response \<Rightarrow> bool" where
  "failed r = (case r of Inl e \<Rightarrow> True | Inr d \<Rightarrow> \<not> success d)"

text \<open>The world at process start.\<close>

definition start :: world where
  "start = \<lparr>current_policy = inactive, issued = []\<rparr>"

text \<open>
  The world \<open>clear_shaping\<close> leaves: one more command issued, whatever it returned.
\<close>

definition cleared :: "string option \<Rightarrow> world \<Rightarrow> world" where
  "cleared a w = w\<lparr>issued := issued w @ [clear_cmd (arg_interface a)]\<rparr>"


subsection \<open>Example inputs\<close>

text \<open>
  Two shells (every command exits with 0; one given command exits with 2), the catalog
  of the scenarios (a netem policy, an htb policy with three classes, and a policy of
  type \<open>none\<close> stored under another name than \<open>no_shaping\<close>), a world in which
  \<open>slow_link\<close> is active and one in which \<open>tiered\<close> is.
\<close>

definition sh_ok :: shell where
  "sh_ok history cmd = Exited 0 [] []"

definition sh_reject :: "string \<Rightarrow> shell" where
  "sh_reject bad history cmd =
     (if cmd = bad then Exited 2 [] ''RTNETLINK answers: Invalid argument'' else Exited 0 [] [])"

definition blank :: policy where
  "blank = \<lparr>p_type = None, bandwidth = None, rtt = None, features = None,
     delay = None, jitter = None, loss = None, rate = None, total_bandwidth = None,
     classes = None\<rparr>"

definition slow_link :: policy where
  "slow_link = blank\<lparr>p_type := Some ''netem'', delay := Some ''100ms'', loss := Some ''1%''\<rparr>"

definition tiered :: policy where
  "tiered = blank\<lparr>p_type := Some ''htb'', total_bandwidth := Some ''100mbit'',
     classes := Some [\<lparr>c_rate = Some ''50mbit'', c_ceil = Some ''100mbit''\<rparr>,
                      \<lparr>c_rate = Some ''30mbit'', c_ceil = None\<rparr>,
                      \<lparr>c_rate = Some ''20mbit'', c_ceil = None\<rparr>]\<rparr>"

definition demo :: "string \<rightharpoonup> policy" where
  "demo = [''no_shaping'' \<mapsto> none_config, ''slow_link'' \<mapsto> slow_link,
           ''tiered'' \<mapsto> tiered, ''passthrough'' \<mapsto> none_config]"


definition busy :: world where
  "busy = \<lparr>current_policy = active ''slow_link'' slow_link, issued = []\<rparr>"

definition bad11 :: string where
  "bad11 = ''tc class add dev eth1 parent 1:1 classid 1:11 htb rate 30mbit ceil 30mbit''"

definition tiered_on :: world where
  "tiered_on = \<lparr>current_policy = \<lparr>name = ''tiered'', status = ''active'', config = Some tiered\<rparr>,
     issued = []\<rparr>"

section \<open>Properties\<close>

subsection \<open>Auxiliary facts\<close>

lemma run_command_world: "snd (run_command sh cmd w) = w\<lparr>issued := issued w @ [cmd]\<rparr>"
  by (simp add: run_command_def)

lemma clear_shaping_world:
  "snd (clear_shaping sh a w) = w\<lparr>issued := issued w @ [clear_cmd (arg_interface a)]\<rparr>"
  by (simp add: clear_shaping_def Let_def split_beta run_command_world)

lemma arg_interface_Some [simp]: "arg_interface (Some i) = i"
  by (simp add: arg_interface_def)

lemma run_commands_current_policy:
  "current_policy (snd (run_commands sh cs w)) = current_policy w"
  by (induction cs arbitrary: w) (simp_all add: split_beta Let_def run_command_world)

lemma execute_failed_keeps:
  "failed (fst (execute sh n p cmd w)) \<Longrightarrow> current_policy (snd (execute sh n p cmd w)) = current_policy w"
  by (simp add: execute_def split_beta Let_def failed_def resp_def run_command_world split: if_splits)

lemma apply_policy_unfold:
  "apply_policy sh pf policy_name a w =
     (let interface = arg_interface a;
          w1 = w\<lparr>issued := issued w @ [clear_cmd interface]\<rparr>
      in if policy_name = ''no_shaping''
         then (Inr ((resp True)\<lparr>r_policy := Some policy_name,
                      message := Some ''No shaping applied''\<rparr>),
               w1\<lparr>current_policy := active policy_name none_config\<rparr>)
         else
           (case pf of
              Inl e \<Rightarrow> (Inl e, w1)
            | Inr policies \<Rightarrow>
                (case policies policy_name of
                   None \<Rightarrow>
                     (Inr ((resp False)\<lparr>error :=
                        Some (''Policy '' @ [CHR 0x27] @ policy_name @ [CHR 0x27] @ '' not found'')\<rparr>), w1)
                 | Some p \<Rightarrow>
                     (case p_type p of
                        None \<Rightarrow> (Inl (KeyError ''type''), w1)
                      | Some t \<Rightarrow>
                          if t = ''cake'' then
                            (case cake_cmd interface p of
                               Inl e \<Rightarrow> (Inl e, w1)
                             | Inr cmd \<Rightarrow> execute sh policy_name p cmd w1)
                          else if t = ''netem'' then
                            execute sh policy_name p (netem_cmd interface p) w1
                          else if t = ''htb'' then
                            (case htb_commands interface p of
                               Inl e \<Rightarrow> (Inl e, w1)
                             | Inr commands \<Rightarrow>
                                 (case run_commands sh commands w1 of
                                    (Some (result, cmd), w2) \<Rightarrow>
                                      (Inr ((resp False)\<lparr>error := Some (cr_error result),
                                              command := Some cmd\<rparr>), w2)
                                  | (None, w2) \<Rightarrow>
                                      (Inr ((resp True)\<lparr>r_policy := Some policy_name,
                                              r_type := Some ''htb''\<rparr>),
                                       w2\<lparr>current_policy := active policy_name p\<rparr>)))
                          else
                            (Inr ((resp False)\<lparr>error := Some (''Unknown policy type: '' @ t)\<rparr>),
                             w1)))))"
  unfolding apply_policy_def Let_def
  by (simp add: split_beta clear_shaping_world)

lemma run_commands_keeps:
  "run_commands sh cs w = (r, w') \<Longrightarrow> current_policy w' = current_policy w"
  using run_commands_current_policy [of sh cs w] by simp

lemma failed_simps [simp]:
  "failed (Inl e)" "failed (Inr d) = (\<not> success d)"
  by (simp_all add: failed_def)

lemma apply_no_shaping:
  "apply_policy sh pf ''no_shaping'' a w =
     (Inr ((resp True)\<lparr>r_policy := Some ''no_shaping'', message := Some ''No shaping applied''\<rparr>),
      (cleared a w)\<lparr>current_policy := active ''no_shaping'' none_config\<rparr>)"
  unfolding cleared_def by (simp add: apply_policy_unfold Let_def)

lemma apply_file_error:
  "q \<noteq> ''no_shaping'' \<Longrightarrow> apply_policy sh (Inl e) q a w = (Inl e, cleared a w)"
  unfolding cleared_def by (simp add: apply_policy_unfold Let_def)

lemma apply_not_found:
  "q \<noteq> ''no_shaping'' \<Longrightarrow> policies q = None \<Longrightarrow>
   apply_policy sh (Inr policies) q a w =
     (Inr ((resp False)\<lparr>error :=
        Some (''Policy '' @ [CHR 0x27] @ q @ [CHR 0x27] @ '' not found'')\<rparr>), cleared a w)"
  unfolding cleared_def by (simp add: apply_policy_unfold Let_def)

lemma apply_no_type:
  "q \<noteq> ''no_shaping'' \<Longrightarrow> policies q = Some p \<Longrightarrow> p_type p = None \<Longrightarrow>
   apply_policy sh (Inr policies) q a w = (Inl (KeyError ''type''), cleared a w)"
  unfolding cleared_def by (simp add: apply_policy_unfold Let_def)

lemma apply_cake:
  "q \<noteq> ''no_shaping'' \<Longrightarrow> policies q = Some p \<Longrightarrow> p_type p = Some ''cake'' \<Longrightarrow>
   apply_policy sh (Inr policies) q a w =
     (case cake_cmd (arg_interface a) p of
        Inl e \<Rightarrow> (Inl e, cleared a w)
      | Inr cmd \<Rightarrow> execute sh q p cmd (cleared a w))"
  unfolding cleared_def by (simp add: apply_policy_unfold Let_def)

lemma apply_netem:
  "q \<noteq> ''no_shaping'' \<Longrightarrow> policies q = Some p \<Longrightarrow> p_type p = Some ''netem'' \<Longrightarrow>
   apply_policy sh (Inr policies) q a w =
     execute sh q p (netem_cmd (arg_interface a) p) (cleared a w)"
  unfolding cleared_def by (simp add: apply_policy_unfold Let_def)

lemma apply_htb:
  "q \<noteq> ''no_shaping'' \<Longrightarrow> policies q = Some p \<Longrightarrow> p_type p = Some ''htb'' \<Longrightarrow>
   apply_policy sh (Inr policies) q a w =
     (case htb_commands (arg_interface a) p of
        Inl e \<Rightarrow> (Inl e, cleared a w)
      | Inr commands \<Rightarrow>
          (case run_commands sh commands (cleared a w) of
             (Some (result, cmd), w2) \<Rightarrow>
               (Inr ((resp False)\<lparr>error := Some (cr_error result), command := Some cmd\<rparr>), w2)
           | (None, w2) \<Rightarrow>
               (Inr ((resp True)\<lparr>r_policy := Some q, r_type := Some ''htb''\<rparr>),
                w2\<lparr>current_policy := active q p\<rparr>)))"
  unfolding cleared_def by (simp add: apply_policy_unfold Let_def)

lemma apply_unknown_type:
  "q \<noteq> ''no_shaping'' \<Longrightarrow> policies q = Some p \<Longrightarrow> p_type p = Some t \<Longrightarrow>
   t \<noteq> ''cake'' \<Longrightarrow> t \<noteq> ''netem'' \<Longrightarrow> t \<noteq> ''htb'' \<Longrightarrow>
   apply_policy sh (Inr policies) q a w =
     (Inr ((resp False)\<lparr>error := Some (''Unknown policy type: '' @ t)\<rparr>), cleared a w)"
  unfolding cleared_def by (simp add: apply_policy_unfold Let_def)

lemma cleared_current_policy [simp]: "current_policy (cleared a w) = current_policy w"
  by (simp add: cleared_def)

lemma htb_failed_keeps:
  assumes "failed (fst (case run_commands sh cs w1 of
             (Some (result, cmd), w2) \<Rightarrow>
               (Inr ((resp False)\<lparr>error := Some (cr_error result), command := Some cmd\<rparr>), w2)
           | (None, w2) \<Rightarrow>
               (Inr ((resp True)\<lparr>r_policy := Some q, r_type := Some ''htb''\<rparr>),
                w2\<lparr>current_policy := active q p\<rparr>)))"
  shows "current_policy (snd (case run_commands sh cs w1 of
             (Some (result, cmd), w2) \<Rightarrow>
               (Inr ((resp False)\<lparr>error := Some (cr_error result), command := Some cmd\<rparr>), w2)
           | (None, w2) \<Rightarrow>
               (Inr ((resp True)\<lparr>r_policy := Some q, r_type := Some ''htb''\<rparr>),
                w2\<lparr>current_policy := active q p\<rparr>))) = current_policy w1"
proof (cases "run_commands sh cs w1")
  case (Pair r w2)
  then have k: "current_policy w2 = current_policy w1" by (rule run_commands_keeps)
  show ?thesis
  proof (cases r)
    case None
    with Pair assms show ?thesis by (simp add: resp_def)
  next
    case (Some rc)
    with Pair k show ?thesis by (cases rc) simp
  qed
qed

lemma apply_policy_failed_keeps:
  assumes f: "failed (fst (apply_policy sh pf q a w))"
  shows "current_policy (snd (apply_policy sh pf q a w)) = current_policy w"
proof (cases "q = ''no_shaping''")
  case True
  with f show ?thesis by (simp add: apply_no_shaping resp_def)
next
  case ns: False
  show ?thesis
  proof (cases pf)
    case (Inl e)
    with ns show ?thesis by (simp add: apply_file_error)
  next
    case (Inr policies)
    show ?thesis
    proof (cases "policies q")
      case None
      with ns Inr show ?thesis by (simp add: apply_not_found)
    next
      case (Some p)
      show ?thesis
      proof (cases "p_type p")
        case None
        with ns Inr Some show ?thesis by (simp add: apply_no_type)
      next
        case t: (Some t)
        consider "t = ''cake''" | "t = ''netem''" | "t = ''htb''"
          | "t \<noteq> ''cake''" "t \<noteq> ''netem''" "t \<noteq> ''htb''" by blast
        then show ?thesis
        proof cases
          case 1
          with ns Inr Some t f show ?thesis
            by (cases "cake_cmd (arg_interface a) p")
               (simp_all add: apply_cake execute_failed_keeps)
        next
          case 2
          with ns Inr Some t f show ?thesis
            by (simp add: apply_netem execute_failed_keeps)
        next
          case 3
          with ns Inr Some t f show ?thesis
            by (cases "htb_commands (arg_interface a) p")
               (simp_all add: apply_htb htb_failed_keeps)
        next
          case 4
          with ns Inr Some t show ?thesis by (simp add: apply_unknown_type)
        qed
      qed
    qed
  qed
qed

lemma cleared_issued [simp]: "issued (cleared a w) = issued w @ [clear_cmd (arg_interface a)]"
  by (simp add: cleared_def)


lemma apply_policy_cases [case_names no_shaping file_error not_found no_type cake netem htb unknown]:
  fixes q :: string and pf :: catalog
  obtains "q = ''no_shaping''"
  | e where "q \<noteq> ''no_shaping''" "pf = Inl e"
  | policies where "q \<noteq> ''no_shaping''" "pf = Inr policies" "policies q = None"
  | policies p where "q \<noteq> ''no_shaping''" "pf = Inr policies" "policies q = Some p"
      "p_type p = None"
  | policies p where "q \<noteq> ''no_shaping''" "pf = Inr policies" "policies q = Some p"
      "p_type p = Some ''cake''"
  | policies p where "q \<noteq> ''no_shaping''" "pf = Inr policies" "policies q = Some p"
      "p_type p = Some ''netem''"
  | policies p where "q \<noteq> ''no_shaping''" "pf = Inr policies" "policies q = Some p"
      "p_type p = Some ''htb''"
  | policies p t where "q \<noteq> ''no_shaping''" "pf = Inr policies" "policies q = Some p"
      "p_type p = Some t" "t \<noteq> ''cake''" "t \<noteq> ''netem''" "t \<noteq> ''htb''"
proof (cases "q = ''no_shaping''")
  case True
  then show ?thesis by (rule that(1))
next
  case ns: False
  show ?thesis
  proof (cases pf)
    case (Inl e)
    with ns show ?thesis by (rule that(2))
  next
    case (Inr policies)
    show ?thesis
    proof (cases "policies q")
      case None
      with ns Inr show ?thesis by (rule that(3))
    next
      case (Some p)
      show ?thesis
      proof (cases "p_type p")
        case None
        with ns Inr Some show ?thesis by (rule that(4))
      next
        case t: (Some t)
        consider "t = ''cake''" | "t = ''netem''" | "t = ''htb''"
          | "t \<noteq> ''cake''" "t \<noteq> ''netem''" "t \<noteq> ''htb''" by blast
        then show ?thesis
        proof cases
          case 1 with ns Inr Some t show ?thesis using that(5) by blast
        next
          case 2 with ns Inr Some t show ?thesis using that(6) by blast
        next
          case 3 with ns Inr Some t show ?thesis using that(7) by blast
        next
          case 4 with ns Inr Some t show ?thesis using that(8) by blast
        qed
      qed
    qed
  qed
qed

lemma execute_success:
  "\<not> failed (fst (execute sh q p cmd w)) \<Longrightarrow>
   current_policy (snd (execute sh q p cmd w)) = active q p"
  by (simp add: execute_def split_beta Let_def resp_def run_command_world split: if_splits)

lemma htb_success:
  assumes "\<not> failed (fst (case run_commands sh cs w1 of
             (Some (result, cmd), w2) \<Rightarrow>
               (Inr ((resp False)\<lparr>error := Some (cr_error result), command := Some cmd\<rparr>), w2)
           | (None, w2) \<Rightarrow>
               (Inr ((resp True)\<lparr>r_policy := Some q, r_type := Some ''htb''\<rparr>),
                w2\<lparr>current_policy := active q p\<rparr>)))"
  shows "current_policy (snd (case run_commands sh cs w1 of
             (Some (result, cmd), w2) \<Rightarrow>
               (Inr ((resp False)\<lparr>error := Some (cr_error result), command := Some cmd\<rparr>), w2)
           | (None, w2) \<Rightarrow>
               (Inr ((resp True)\<lparr>r_policy := Some q, r_type := Some ''htb''\<rparr>),
                w2\<lparr>current_policy := active q p\<rparr>))) = active q p"
proof (cases "run_commands sh cs w1")
  case (Pair r w2)
  show ?thesis
  proof (cases r)
    case None
    with Pair show ?thesis by simp
  next
    case (Some rc)
    with Pair assms show ?thesis by (cases rc) (simp add: resp_def)
  qed
qed

lemma apply_policy_success:
  assumes ok: "\<not> failed (fst (apply_policy sh pf q a w))"
  shows "\<exists>cfg. current_policy (snd (apply_policy sh pf q a w)) = active q cfg
    \<and> (if q = ''no_shaping'' then cfg = none_config
        else \<exists>policies. pf = Inr policies \<and> policies q = Some cfg)"
proof (cases rule: apply_policy_cases [where q = q and pf = pf])
  case no_shaping
  then show ?thesis by (simp add: apply_no_shaping)
next
  case (file_error e)
  with ok show ?thesis by (simp add: apply_file_error)
next
  case (not_found policies)
  with ok show ?thesis by (simp add: apply_not_found resp_def)
next
  case (no_type policies p)
  with ok show ?thesis by (simp add: apply_no_type)
next
  case (cake policies p)
  with ok show ?thesis
    by (cases "cake_cmd (arg_interface a) p") (simp_all add: apply_cake execute_success)
next
  case (netem policies p)
  with ok show ?thesis by (simp add: apply_netem execute_success)
next
  case (htb policies p)
  with ok show ?thesis
    by (cases "htb_commands (arg_interface a) p") (simp_all add: apply_htb htb_success)
next
  case (unknown policies p t)
  with ok show ?thesis by (simp add: apply_unknown_type resp_def)
qed

lemma get_current_policy_world:
  "snd (get_current_policy sh w) = w\<lparr>issued := issued w @ [''tc qdisc show dev eth1'']\<rparr>"
  by (simp add: get_current_policy_def split_beta Let_def run_command_world split: option.splits)

lemma get_current_policy_result:
  "fst (get_current_policy sh w) =
     (case sh (issued w) ''tc qdisc show dev eth1'' of
        Exited rc out err \<Rightarrow> Inr (current_policy w, out)
      | Raised e \<Rightarrow> Inl (KeyError ''output''))"
  by (simp add: get_current_policy_def split_beta Let_def run_command_def split: proc.splits)

lemma clear_policy_endpoint_eq:
  "clear_policy_endpoint sh body w =
     ((True, \<lparr>cl_status = ''cleared'',
        cl_interface = (case (case body of None \<Rightarrow> Map.empty | Some d \<Rightarrow> d) ''interface'' of
                          None \<Rightarrow> ''eth1'' | Some i \<Rightarrow> i)\<rparr>),
      w\<lparr>current_policy := inactive,
        issued := issued w @ [clear_cmd (case (case body of None \<Rightarrow> Map.empty | Some d \<Rightarrow> d) ''interface'' of
                          None \<Rightarrow> ''eth1'' | Some i \<Rightarrow> i)]\<rparr>)"
  by (simp add: clear_policy_endpoint_def Let_def split_beta clear_shaping_def run_command_def)

lemma execute_issued:
  "issued (snd (execute sh q p cmd w)) = issued w @ [cmd]"
  by (simp add: execute_def split_beta Let_def run_command_world)

lemma execute_has_command:
  "\<exists>d. fst (execute sh q p cmd w) = Inr d \<and> command d = Some cmd"
  by (simp add: execute_def split_beta Let_def resp_def)

lemma htb_result_not_unknown:
  "fst (case run_commands sh cs w1 of
             (Some (result, cmd), w2) \<Rightarrow>
               (Inr ((resp False)\<lparr>error := Some (cr_error result), command := Some cmd\<rparr>), w2)
           | (None, w2) \<Rightarrow>
               (Inr ((resp True)\<lparr>r_policy := Some q, r_type := Some ''htb''\<rparr>),
                w2\<lparr>current_policy := active q p\<rparr>))
     \<noteq> Inr ((resp False)\<lparr>error := Some e\<rparr>)"
proof (cases "run_commands sh cs w1")
  case (Pair r w2)
  show ?thesis
  proof (cases r)
    case None
    with Pair show ?thesis by (simp add: resp_def)
  next
    case (Some rc)
    with Pair show ?thesis by (cases rc) (simp add: resp_def)
  qed
qed




lemma digit_inj:
  assumes "a < 10" "b < 10" "''0123456789'' ! a = ''0123456789'' ! b"
  shows "a = b"
proof -
  have d: "distinct ''0123456789''" by simp
  have l: "length ''0123456789'' = 10" by simp
  from assms d l show ?thesis by (metis nth_eq_iff_index_eq)
qed

lemma str_nat_not_Nil: "str_nat n \<noteq> []"
  by (subst str_nat.simps) simp

lemma str_nat_small: "n < 10 \<Longrightarrow> str_nat n = [''0123456789'' ! n]"
  by (subst str_nat.simps) simp

lemma str_nat_large:
  "\<not> n < 10 \<Longrightarrow> str_nat n = str_nat (n div 10) @ [''0123456789'' ! (n mod 10)]"
  by (subst str_nat.simps) simp

lemma str_nat_inj: "str_nat m = str_nat n \<Longrightarrow> m = n"
proof (induction m arbitrary: n rule: str_nat.induct)
  case (1 m)
  show ?case
  proof (cases "m < 10")
    case m: True
    show ?thesis
    proof (cases "n < 10")
      case True
      with m "1.prems" show ?thesis by (simp add: str_nat_small digit_inj)
    next
      case False
      with m "1.prems" show ?thesis
        by (simp add: str_nat_small str_nat_large str_nat_not_Nil str_nat_not_Nil [THEN not_sym])
    qed
  next
    case m: False
    show ?thesis
    proof (cases "n < 10")
      case True
      with m "1.prems" show ?thesis
        by (simp add: str_nat_small str_nat_large str_nat_not_Nil str_nat_not_Nil [THEN not_sym])
    next
      case False
      with m "1.prems" have hi: "str_nat (m div 10) = str_nat (n div 10)"
        and lo: "''0123456789'' ! (m mod 10) = ''0123456789'' ! (n mod 10)"
        by (simp_all add: str_nat_large)
      from "1.IH" [OF m hi] have q: "m div 10 = n div 10" .
      have r: "m mod 10 = n mod 10" by (rule digit_inj [OF _ _ lo]) simp_all
      from q r show ?thesis by (metis div_mult_mod_eq)
    qed
  qed
qed

lemma class_commands_ok:
  assumes "\<forall>c\<in>set cs. c_rate c \<noteq> None"
  shows "\<exists>cmds. class_commands interface i cs = Inr cmds
    \<and> length cmds = 2 * length cs
    \<and> (\<forall>k<length cs. \<exists>r. c_rate (cs ! k) = Some r
          \<and> cmds ! (2 * k) = class_add_cmd interface (i + k) r
               (case c_ceil (cs ! k) of None \<Rightarrow> r | Some c \<Rightarrow> c)
          \<and> cmds ! (2 * k + 1) = leaf_cmd interface (i + k))"
  using assms
proof (induction cs arbitrary: i)
  case Nil
  then show ?case by simp
next
  case (Cons c cs)
  from Cons.prems obtain r where r: "c_rate c = Some r" by auto
  from Cons.prems have "\<forall>c\<in>set cs. c_rate c \<noteq> None" by simp
  from Cons.IH [OF this, of "Suc i"] obtain cmds where
    c: "class_commands interface (Suc i) cs = Inr cmds"
    and l: "length cmds = 2 * length cs"
    and n: "\<forall>k<length cs. \<exists>r. c_rate (cs ! k) = Some r
          \<and> cmds ! (2 * k) = class_add_cmd interface (Suc i + k) r
               (case c_ceil (cs ! k) of None \<Rightarrow> r | Some c \<Rightarrow> c)
          \<and> cmds ! (2 * k + 1) = leaf_cmd interface (Suc i + k)"
    by blast
  let ?all = "class_add_cmd interface i r (case c_ceil c of None \<Rightarrow> r | Some x \<Rightarrow> x)
                 # leaf_cmd interface i # cmds"
  have e: "class_commands interface i (c # cs) = Inr ?all" using r c by simp
  have len: "length ?all = 2 * length (c # cs)" using l by simp
  have nth: "\<exists>r'. c_rate ((c # cs) ! k) = Some r'
          \<and> ?all ! (2 * k) = class_add_cmd interface (i + k) r'
               (case c_ceil ((c # cs) ! k) of None \<Rightarrow> r' | Some x \<Rightarrow> x)
          \<and> ?all ! (2 * k + 1) = leaf_cmd interface (i + k)"
    if k: "k < length (c # cs)" for k
  proof (cases k)
    case 0
    with r show ?thesis by simp
  next
    case (Suc j)
    with k have "j < length cs" by simp
    with n obtain r' where "c_rate (cs ! j) = Some r'"
      "cmds ! (2 * j) = class_add_cmd interface (Suc i + j) r'
               (case c_ceil (cs ! j) of None \<Rightarrow> r' | Some c \<Rightarrow> c)"
      "cmds ! (2 * j + 1) = leaf_cmd interface (Suc i + j)" by blast
    with Suc show ?thesis by simp
  qed
  from e len nth show ?case by blast
qed

subsection \<open>The record after a failed apply\<close>

text \<open>
  A failed \<open>apply_policy\<close> from an active record: \<open>slow_link\<close> is active, the
  htb policy \<open>tiered\<close> is applied and the command that adds its second class (1:11)
  exits with 2. The apply fails, and the record is not the inactive one: it still
  says that \<open>slow_link\<close> is active.
\<close>

theorem failed_apply_active_counterexample:
  "status (current_policy busy) = ''active'' \<and> name (current_policy busy) = ''slow_link''
   \<and> failed (fst (apply_policy (sh_reject bad11) (Inr demo) ''tiered'' (Some ''eth1'') busy))
   \<and> current_policy (snd (apply_policy (sh_reject bad11) (Inr demo) ''tiered'' (Some ''eth1'') busy))
        \<noteq> inactive
   \<and> status (current_policy (snd (apply_policy (sh_reject bad11) (Inr demo) ''tiered''
        (Some ''eth1'') busy))) = ''active''"
  by (simp add: apply_htb demo_def tiered_def blank_def htb_commands_def class_add_cmd_def
      leaf_cmd_def str_nat.simps cleared_def busy_def run_command_def sh_reject_def bad11_def
      clear_cmd_def resp_def Let_def active_def inactive_def)

text \<open>
  Claim C1, as amended. If the record says that a policy \<open>p\<close> is active and
  \<open>apply_policy\<close> fails, for any policy name, interface, shell and policies file and
  for any reason (an exception, an unknown name, an unknown type, a failed command),
  then afterwards the record still says that \<open>p\<close> is active, with the configuration
  it had: no failure path of \<open>apply_policy\<close> assigns \<open>current_policy\<close>.
\<close>

theorem failed_apply_stays_active:
  assumes "status (current_policy w) = ''active''" and "name (current_policy w) = p"
    and "failed (fst (apply_policy sh pf q a w))"
  shows "status (current_policy (snd (apply_policy sh pf q a w))) = ''active''
    \<and> name (current_policy (snd (apply_policy sh pf q a w))) = p
    \<and> config (current_policy (snd (apply_policy sh pf q a w))) = config (current_policy w)"
  using apply_policy_failed_keeps [OF assms(3)] assms(1,2) by simp

theorem failed_apply_stays_active_witness:
  "status (current_policy busy) = ''active'' \<and> name (current_policy busy) = ''slow_link''
   \<and> failed (fst (apply_policy (sh_reject bad11) (Inr demo) ''tiered'' None busy))
   \<and> status (current_policy (snd (apply_policy (sh_reject bad11) (Inr demo) ''tiered'' None busy)))
        = ''active''
   \<and> name (current_policy (snd (apply_policy (sh_reject bad11) (Inr demo) ''tiered'' None busy)))
        = ''slow_link''"
proof -
  have s: "status (current_policy busy) = ''active''"
    and n: "name (current_policy busy) = ''slow_link''"
    by (simp_all add: busy_def active_def)
  have f: "failed (fst (apply_policy (sh_reject bad11) (Inr demo) ''tiered'' None busy))"
    by code_simp
  from failed_apply_stays_active [OF s n f] s n f show ?thesis by simp
qed

text \<open>
  An active policy applied again, and the apply fails: \<open>tiered\<close> is active with its
  descriptor, \<open>tiered\<close> is applied and the command that adds its second class
  exits with 2. Afterwards the record still has the name of the failed policy, the
  status \<open>active\<close> and the failed policy's descriptor as its configuration.
\<close>

theorem failed_reapply_still_active_counterexample:
  "demo ''tiered'' = Some tiered
   \<and> failed (fst (apply_policy (sh_reject bad11) (Inr demo) ''tiered'' (Some ''eth1'') tiered_on))
   \<and> name (current_policy (snd (apply_policy (sh_reject bad11) (Inr demo) ''tiered''
        (Some ''eth1'') tiered_on))) = ''tiered''
   \<and> status (current_policy (snd (apply_policy (sh_reject bad11) (Inr demo) ''tiered''
        (Some ''eth1'') tiered_on))) = ''active''
   \<and> config (current_policy (snd (apply_policy (sh_reject bad11) (Inr demo) ''tiered''
        (Some ''eth1'') tiered_on))) = Some tiered"
  by (simp add: apply_htb demo_def tiered_def blank_def htb_commands_def class_add_cmd_def
      leaf_cmd_def str_nat.simps cleared_def tiered_on_def run_command_def sh_reject_def bad11_def
      clear_cmd_def resp_def Let_def)

text \<open>
  Claim C2, as amended. Whatever the record is before the call, an \<open>apply_policy\<close>
  that fails (it raises, or it answers \<open>"success": False\<close>: unknown name, unknown
  type, failed command) leaves the whole record as it was: \<open>name\<close>, \<open>status\<close>
  and \<open>config\<close> are what they were. So after the call the record names the failed
  policy as active with a descriptor exactly when it did so before the call.
\<close>

theorem failed_apply_keeps_record:
  assumes "failed (fst (apply_policy sh pf q a w))"
  shows "current_policy (snd (apply_policy sh pf q a w)) = current_policy w
    \<and> name (current_policy (snd (apply_policy sh pf q a w))) = name (current_policy w)
    \<and> status (current_policy (snd (apply_policy sh pf q a w))) = status (current_policy w)
    \<and> config (current_policy (snd (apply_policy sh pf q a w))) = config (current_policy w)
    \<and> (\<forall>p. (name (current_policy (snd (apply_policy sh pf q a w))) = q
            \<and> status (current_policy (snd (apply_policy sh pf q a w))) = ''active''
            \<and> config (current_policy (snd (apply_policy sh pf q a w))) = Some p)
          = (name (current_policy w) = q \<and> status (current_policy w) = ''active''
            \<and> config (current_policy w) = Some p))"
  using apply_policy_failed_keeps [OF assms] by simp

theorem failed_apply_keeps_record_witness:
  "failed (fst (apply_policy sh_ok (Inr demo) ''missing_policy'' (Some ''eth1'') busy))
   \<and> name (current_policy busy) = ''slow_link'' \<and> status (current_policy busy) = ''active''
   \<and> config (current_policy busy) = Some slow_link
   \<and> name (current_policy (snd (apply_policy sh_ok (Inr demo) ''missing_policy''
        (Some ''eth1'') busy))) = ''slow_link''
   \<and> status (current_policy (snd (apply_policy sh_ok (Inr demo) ''missing_policy''
        (Some ''eth1'') busy))) = ''active''
   \<and> config (current_policy (snd (apply_policy sh_ok (Inr demo) ''missing_policy''
        (Some ''eth1'') busy))) = Some slow_link
   \<and> failed (fst (apply_policy (sh_reject bad11) (Inr demo) ''tiered'' None start))
   \<and> current_policy (snd (apply_policy (sh_reject bad11) (Inr demo) ''tiered'' None start))
       = \<lparr>name = ''none'', status = ''inactive'', config = None\<rparr>"
proof -
  have f: "failed (fst (apply_policy sh_ok (Inr demo) ''missing_policy'' (Some ''eth1'') busy))"
    by (simp add: apply_not_found demo_def resp_def)
  have b: "name (current_policy busy) = ''slow_link'' \<and> status (current_policy busy) = ''active''
      \<and> config (current_policy busy) = Some slow_link"
    by (simp add: busy_def active_def)
  have g: "failed (fst (apply_policy (sh_reject bad11) (Inr demo) ''tiered'' None start))"
    by code_simp
  have s: "current_policy start = \<lparr>name = ''none'', status = ''inactive'', config = None\<rparr>"
    by (simp add: start_def inactive_def)
  from failed_apply_keeps_record [OF f] failed_apply_keeps_record [OF g] f g b s
  show ?thesis by simp
qed

subsection \<open>What a failed lookup or an unknown type does to the scheduler\<close>

text \<open>
  From the start world, applying a name that the catalog does not have, or a policy
  whose type is none of the three that \<open>apply_policy\<close> knows, fails, and by then the
  command that deletes the root qdisc of the interface has been issued.
\<close>

theorem compile_error_clears_counterexample:
  "failed (fst (apply_policy sh_ok (Inr demo) ''missing_policy'' (Some ''eth1'') start))
   \<and> issued start = []
   \<and> issued (snd (apply_policy sh_ok (Inr demo) ''missing_policy'' (Some ''eth1'') start))
       = [''tc qdisc del dev eth1 root 2>/dev/null || true'']
   \<and> failed (fst (apply_policy sh_ok (Inr demo) ''passthrough'' (Some ''eth1'') start))
   \<and> issued (snd (apply_policy sh_ok (Inr demo) ''passthrough'' (Some ''eth1'') start))
       = [''tc qdisc del dev eth1 root 2>/dev/null || true'']"
  by (simp add: apply_not_found apply_unknown_type [where t = "''none''"] demo_def resp_def
      start_def clear_cmd_def none_config_def)

text \<open>
  Claim C3, as amended. When \<open>apply_policy\<close> fails because the name is not in the
  catalog or because the type of the policy is not \<open>cake\<close>, \<open>netem\<close> or \<open>htb\<close>,
  exactly one command has been issued on the way: the unconditional
  \<open>tc qdisc del dev <interface> root\<close> of \<open>clear_shaping\<close>, which runs before the
  catalog is read. Nothing else of the world changes: no command that adds a
  discipline or a class is issued, and the record is as before.
\<close>

theorem compile_error_only_clears:
  assumes "q \<noteq> ''no_shaping''"
    and "policies q = None
      \<or> (\<exists>p t. policies q = Some p \<and> p_type p = Some t
            \<and> t \<noteq> ''cake'' \<and> t \<noteq> ''netem'' \<and> t \<noteq> ''htb'')"
  shows "failed (fst (apply_policy sh (Inr policies) q a w))
    \<and> snd (apply_policy sh (Inr policies) q a w)
        = w\<lparr>issued := issued w @ [clear_cmd (arg_interface a)]\<rparr>"
  using assms
  by (auto simp: apply_not_found apply_unknown_type resp_def cleared_def)

theorem compile_error_only_clears_witness:
  "failed (fst (apply_policy sh_ok (Inr demo) ''passthrough'' (Some ''eth0'') busy))
   \<and> snd (apply_policy sh_ok (Inr demo) ''passthrough'' (Some ''eth0'') busy)
       = busy\<lparr>issued := [''tc qdisc del dev eth0 root 2>/dev/null || true'']\<rparr>"
proof -
  have n: "''passthrough'' \<noteq> ''no_shaping''" by simp
  have k: "demo ''passthrough'' = None
      \<or> (\<exists>p t. demo ''passthrough'' = Some p \<and> p_type p = Some t
            \<and> t \<noteq> ''cake'' \<and> t \<noteq> ''netem'' \<and> t \<noteq> ''htb'')"
    by (simp add: demo_def none_config_def)
  from compile_error_only_clears [where q = "''passthrough''" and policies = demo
      and sh = sh_ok and a = "Some ''eth0''" and w = busy, OF n k]
  show ?thesis by (simp add: clear_cmd_def busy_def)
qed

subsection \<open>The record after a success\<close>

text \<open>
  Claim C7. After an \<open>apply_policy\<close> that succeeds, the record has the name
  applied, the status \<open>active\<close> and as its configuration the descriptor applied: the
  catalog's entry for the name, or the built-in \<open>{"type": "none"}\<close> for
  \<open>no_shaping\<close>. After the clear endpoint, which always answers success, the record
  has the name \<open>none\<close>, the status \<open>inactive\<close> and no configuration. Both read
  endpoints report that record: \<open>/health\<close> as it is, \<open>/policy/current\<close> together
  with the output of its command whenever that command returns.
\<close>

theorem success_sets_record:
  "(\<not> failed (fst (apply_policy sh pf q a w)) \<longrightarrow>
      (\<exists>cfg. current_policy (snd (apply_policy sh pf q a w))
               = \<lparr>name = q, status = ''active'', config = Some cfg\<rparr>
         \<and> (if q = ''no_shaping''
             then cfg = \<lparr>p_type = Some ''none'', bandwidth = None, rtt = None,
                    features = None, delay = None, jitter = None, loss = None, rate = None,
                    total_bandwidth = None, classes = None\<rparr>
             else \<exists>policies. pf = Inr policies \<and> policies q = Some cfg)
         \<and> health (snd (apply_policy sh pf q a w))
               = (''healthy'', \<lparr>name = q, status = ''active'', config = Some cfg\<rparr>)
         \<and> (\<forall>rc out err.
               sh' (issued (snd (apply_policy sh pf q a w))) ''tc qdisc show dev eth1''
                 = Exited rc out err
               \<longrightarrow> fst (get_current_policy sh' (snd (apply_policy sh pf q a w)))
                     = Inr (\<lparr>name = q, status = ''active'', config = Some cfg\<rparr>, out))))
   \<and> fst (fst (clear_policy_endpoint sh body w))
   \<and> current_policy (snd (clear_policy_endpoint sh body w))
       = \<lparr>name = ''none'', status = ''inactive'', config = None\<rparr>
   \<and> health (snd (clear_policy_endpoint sh body w))
       = (''healthy'', \<lparr>name = ''none'', status = ''inactive'', config = None\<rparr>)
   \<and> (\<forall>rc out err.
         sh' (issued (snd (clear_policy_endpoint sh body w))) ''tc qdisc show dev eth1''
           = Exited rc out err
         \<longrightarrow> fst (get_current_policy sh' (snd (clear_policy_endpoint sh body w)))
               = Inr (\<lparr>name = ''none'', status = ''inactive'', config = None\<rparr>, out))"
proof -
  have g: "\<And>v r rc out err. current_policy v = r \<Longrightarrow>
      sh' (issued v) ''tc qdisc show dev eth1'' = Exited rc out err \<Longrightarrow>
      fst (get_current_policy sh' v) = Inr (r, out)"
    by (simp add: get_current_policy_result)
  have "\<exists>cfg. current_policy (snd (apply_policy sh pf q a w))
               = \<lparr>name = q, status = ''active'', config = Some cfg\<rparr>
         \<and> (if q = ''no_shaping''
             then cfg = \<lparr>p_type = Some ''none'', bandwidth = None, rtt = None,
                    features = None, delay = None, jitter = None, loss = None, rate = None,
                    total_bandwidth = None, classes = None\<rparr>
             else \<exists>policies. pf = Inr policies \<and> policies q = Some cfg)
         \<and> health (snd (apply_policy sh pf q a w))
               = (''healthy'', \<lparr>name = q, status = ''active'', config = Some cfg\<rparr>)
         \<and> (\<forall>rc out err.
               sh' (issued (snd (apply_policy sh pf q a w))) ''tc qdisc show dev eth1''
                 = Exited rc out err
               \<longrightarrow> fst (get_current_policy sh' (snd (apply_policy sh pf q a w)))
                     = Inr (\<lparr>name = q, status = ''active'', config = Some cfg\<rparr>, out))"
    if ok: "\<not> failed (fst (apply_policy sh pf q a w))"
  proof -
    from apply_policy_success [OF ok] obtain cfg where
      c: "current_policy (snd (apply_policy sh pf q a w))
            = \<lparr>name = q, status = ''active'', config = Some cfg\<rparr>"
      and d: "if q = ''no_shaping''
             then cfg = \<lparr>p_type = Some ''none'', bandwidth = None, rtt = None,
                    features = None, delay = None, jitter = None, loss = None, rate = None,
                    total_bandwidth = None, classes = None\<rparr>
             else \<exists>policies. pf = Inr policies \<and> policies q = Some cfg"
      unfolding active_def none_config_def by blast
    from c have h: "health (snd (apply_policy sh pf q a w))
        = (''healthy'', \<lparr>name = q, status = ''active'', config = Some cfg\<rparr>)"
      by (simp add: health_def)
    from c d h g [OF c] show ?thesis by blast
  qed
  moreover have "fst (fst (clear_policy_endpoint sh body w))"
    by (simp add: clear_policy_endpoint_eq)
  moreover have i: "current_policy (snd (clear_policy_endpoint sh body w))
      = \<lparr>name = ''none'', status = ''inactive'', config = None\<rparr>"
    by (simp add: clear_policy_endpoint_eq inactive_def)
  moreover from i have "health (snd (clear_policy_endpoint sh body w))
      = (''healthy'', \<lparr>name = ''none'', status = ''inactive'', config = None\<rparr>)"
    by (simp add: health_def)
  moreover note g [OF i]
  ultimately show ?thesis by blast
qed

theorem success_sets_record_witness:
  "\<not> failed (fst (apply_policy sh_ok (Inr demo) ''slow_link'' (Some ''eth1'') start))
   \<and> current_policy (snd (apply_policy sh_ok (Inr demo) ''slow_link'' (Some ''eth1'') start))
       = \<lparr>name = ''slow_link'', status = ''active'',
          config = Some \<lparr>p_type = Some ''netem'', bandwidth = None, rtt = None,
            features = None, delay = Some ''100ms'', jitter = None, loss = Some ''1%'',
            rate = None, total_bandwidth = None, classes = None\<rparr>\<rparr>
   \<and> fst (get_current_policy sh_ok
        (snd (apply_policy sh_ok (Inr demo) ''slow_link'' (Some ''eth1'') start)))
       = Inr (\<lparr>name = ''slow_link'', status = ''active'',
          config = Some \<lparr>p_type = Some ''netem'', bandwidth = None, rtt = None,
            features = None, delay = Some ''100ms'', jitter = None, loss = Some ''1%'',
            rate = None, total_bandwidth = None, classes = None\<rparr>\<rparr>, [])
   \<and> current_policy (snd (clear_policy_endpoint sh_ok None busy))
       = \<lparr>name = ''none'', status = ''inactive'', config = None\<rparr>
   \<and> fst (get_current_policy sh_ok (snd (clear_policy_endpoint sh_ok None busy)))
       = Inr (\<lparr>name = ''none'', status = ''inactive'', config = None\<rparr>, [])"
proof -
  let ?w = "snd (apply_policy sh_ok (Inr demo) ''slow_link'' (Some ''eth1'') start)"
  let ?c = "snd (clear_policy_endpoint sh_ok None busy)"
  let ?lit = "\<lparr>p_type = Some ''netem'', bandwidth = None, rtt = None,
            features = None, delay = Some ''100ms'', jitter = None, loss = Some ''1%'',
            rate = None, total_bandwidth = None, classes = None\<rparr>"
  have ok: "\<not> failed (fst (apply_policy sh_ok (Inr demo) ''slow_link'' (Some ''eth1'') start))"
    by code_simp
  have n: "''slow_link'' \<noteq> ''no_shaping''" by simp
  have d: "demo ''slow_link'' = Some ?lit" by (simp add: demo_def slow_link_def blank_def)
  have x: "\<And>h. sh_ok h ''tc qdisc show dev eth1'' = Exited 0 [] []"
    by (simp add: sh_ok_def)
  note t = success_sets_record [where sh = sh_ok and pf = "Inr demo" and q = "''slow_link''"
      and a = "Some ''eth1''" and w = start and sh' = sh_ok and body = None]
  from t ok n d obtain cfg where
    c: "current_policy ?w = \<lparr>name = ''slow_link'', status = ''active'', config = Some cfg\<rparr>"
    and e: "cfg = ?lit"
    and q: "\<forall>rc out err. sh_ok (issued ?w) ''tc qdisc show dev eth1'' = Exited rc out err
               \<longrightarrow> fst (get_current_policy sh_ok ?w)
                     = Inr (\<lparr>name = ''slow_link'', status = ''active'', config = Some cfg\<rparr>, out)"
    by auto
  from q x have q': "fst (get_current_policy sh_ok ?w)
      = Inr (\<lparr>name = ''slow_link'', status = ''active'', config = Some cfg\<rparr>, [])"
    by blast
  note u = success_sets_record [where sh = sh_ok and pf = "Inr demo" and q = "''slow_link''"
      and a = "Some ''eth1''" and w = busy and sh' = sh_ok and body = None]
  from u have r: "current_policy ?c = \<lparr>name = ''none'', status = ''inactive'', config = None\<rparr>"
    by blast
  from u have "\<forall>rc out err. sh_ok (issued ?c) ''tc qdisc show dev eth1'' = Exited rc out err
         \<longrightarrow> fst (get_current_policy sh_ok ?c)
               = Inr (\<lparr>name = ''none'', status = ''inactive'', config = None\<rparr>, out)"
    by blast
  with x have r': "fst (get_current_policy sh_ok ?c)
      = Inr (\<lparr>name = ''none'', status = ''inactive'', config = None\<rparr>, [])"
    by blast
  from ok c e q' r r' show ?thesis by simp
qed

subsection \<open>The policy name no_shaping\<close>

text \<open>
  Claim C9. For every interface (given or defaulted), every shell and every outcome
  of reading the policies file, an unreadable file and a catalog without the name
  included, \<open>apply_policy\<close> with the name \<open>no_shaping\<close> answers
  \<open>"success": True\<close>, issues only the clearing command and sets the record to the
  name \<open>no_shaping\<close>, the status \<open>active\<close> and the configuration
  \<open>{"type": "none"}\<close>. The result is the same for any two outcomes of reading the
  file, which is read only after this test.
\<close>

theorem no_shaping_skips_catalog:
  "apply_policy sh pf ''no_shaping'' a w =
     (Inr \<lparr>success = True, r_policy = Some ''no_shaping'',
            message = Some ''No shaping applied'', error = None, command = None,
            r_type = None\<rparr>,
      \<lparr>current_policy =
         \<lparr>name = ''no_shaping'', status = ''active'',
          config = Some \<lparr>p_type = Some ''none'', bandwidth = None, rtt = None,
            features = None, delay = None, jitter = None, loss = None, rate = None,
            total_bandwidth = None, classes = None\<rparr>\<rparr>,
       issued = issued w
         @ [''tc qdisc del dev '' @ arg_interface a @ '' root 2>/dev/null || true'']\<rparr>)
   \<and> apply_policy sh pf ''no_shaping'' a w = apply_policy sh pf' ''no_shaping'' a w
   \<and> \<not> failed (fst (apply_policy sh pf ''no_shaping'' a w))"
  by (simp add: apply_no_shaping cleared_def resp_def active_def none_config_def clear_cmd_def)

theorem no_shaping_skips_catalog_witness:
  "apply_policy sh_ok (Inl (FileError ''/app/policies.json'')) ''no_shaping'' (Some ''eth0'') busy
     = (Inr \<lparr>success = True, r_policy = Some ''no_shaping'',
            message = Some ''No shaping applied'', error = None, command = None,
            r_type = None\<rparr>,
        \<lparr>current_policy =
           \<lparr>name = ''no_shaping'', status = ''active'',
            config = Some \<lparr>p_type = Some ''none'', bandwidth = None, rtt = None,
              features = None, delay = None, jitter = None, loss = None, rate = None,
              total_bandwidth = None, classes = None\<rparr>\<rparr>,
         issued = [''tc qdisc del dev eth0 root 2>/dev/null || true'']\<rparr>)
   \<and> apply_policy sh_ok (Inr Map.empty) ''no_shaping'' None start
     = (Inr \<lparr>success = True, r_policy = Some ''no_shaping'',
            message = Some ''No shaping applied'', error = None, command = None,
            r_type = None\<rparr>,
        \<lparr>current_policy =
           \<lparr>name = ''no_shaping'', status = ''active'',
            config = Some \<lparr>p_type = Some ''none'', bandwidth = None, rtt = None,
              features = None, delay = None, jitter = None, loss = None, rate = None,
              total_bandwidth = None, classes = None\<rparr>\<rparr>,
         issued = [''tc qdisc del dev eth1 root 2>/dev/null || true'']\<rparr>)"
  using no_shaping_skips_catalog [of sh_ok "Inl (FileError ''/app/policies.json'')"
      "Some ''eth0''" busy "Inr Map.empty"]
    no_shaping_skips_catalog [of sh_ok "Inr Map.empty" None start "Inr demo"]
  by (simp add: busy_def start_def arg_interface_def)

subsection \<open>The interface eth1\<close>

text \<open>
  Claim C10. A call of \<open>clear_shaping\<close> or \<open>apply_policy\<close> without an interface
  is the call on \<open>eth1\<close>, and so is a request to the clear or the apply endpoint
  whose body has no key \<open>interface\<close>. The current-policy query issues
  \<open>tc qdisc show dev eth1\<close> and nothing else, whatever interface the apply before
  it was given, and answers with the output of that command when it returns.
\<close>

theorem default_interface_eth1:
  "clear_shaping sh None w = clear_shaping sh (Some ''eth1'') w
   \<and> issued (snd (clear_shaping sh None w))
       = issued w @ [''tc qdisc del dev eth1 root 2>/dev/null || true'']
   \<and> apply_policy sh pf q None w = apply_policy sh pf q (Some ''eth1'') w
   \<and> clear_policy_endpoint sh None w = clear_policy_endpoint sh (Some [''interface'' \<mapsto> ''eth1'']) w
   \<and> (data ''interface'' = None \<longrightarrow>
        clear_policy_endpoint sh (Some data) w
          = clear_policy_endpoint sh (Some [''interface'' \<mapsto> ''eth1'']) w
        \<and> apply_policy_endpoint sh pf (Some data) w
          = apply_policy_endpoint sh pf (Some (data(''interface'' \<mapsto> ''eth1''))) w)
   \<and> snd (get_current_policy sh' (snd (apply_policy sh pf q a w)))
       = (snd (apply_policy sh pf q a w))
           \<lparr>issued := issued (snd (apply_policy sh pf q a w)) @ [''tc qdisc show dev eth1'']\<rparr>
   \<and> (\<forall>rc out err.
         sh' (issued (snd (apply_policy sh pf q a w))) ''tc qdisc show dev eth1'' = Exited rc out err
         \<longrightarrow> fst (get_current_policy sh' (snd (apply_policy sh pf q a w)))
               = Inr (current_policy (snd (apply_policy sh pf q a w)), out))"
proof -
  have 1: "clear_shaping sh None w = clear_shaping sh (Some ''eth1'') w"
    by (simp add: clear_shaping_def arg_interface_def)
  have 2: "issued (snd (clear_shaping sh None w))
       = issued w @ [''tc qdisc del dev eth1 root 2>/dev/null || true'']"
    by (simp add: clear_shaping_world arg_interface_def clear_cmd_def)
  have 3: "apply_policy sh pf q None w = apply_policy sh pf q (Some ''eth1'') w"
    by (simp add: apply_policy_def arg_interface_def)
  have 4: "clear_policy_endpoint sh None w
      = clear_policy_endpoint sh (Some [''interface'' \<mapsto> ''eth1'']) w"
    by (simp add: clear_policy_endpoint_eq)
  have 5: "clear_policy_endpoint sh (Some data) w
          = clear_policy_endpoint sh (Some [''interface'' \<mapsto> ''eth1'']) w"
    if "data ''interface'' = None"
    using that by (simp add: clear_policy_endpoint_eq)
  have 6: "apply_policy_endpoint sh pf (Some data) w
          = apply_policy_endpoint sh pf (Some (data(''interface'' \<mapsto> ''eth1''))) w"
    if "data ''interface'' = None"
    using that by (simp add: apply_policy_endpoint_def)
  have 7: "\<And>v. snd (get_current_policy sh' v) = v\<lparr>issued := issued v @ [''tc qdisc show dev eth1'']\<rparr>"
    by (rule get_current_policy_world)
  have 8: "\<And>v rc out err. sh' (issued v) ''tc qdisc show dev eth1'' = Exited rc out err
         \<Longrightarrow> fst (get_current_policy sh' v) = Inr (current_policy v, out)"
    by (simp add: get_current_policy_result)
  from 1 2 3 4 5 6 7 8 show ?thesis by blast
qed

theorem default_interface_eth1_witness:
  "issued (snd (apply_policy sh_ok (Inr demo) ''slow_link'' None start))
     = [''tc qdisc del dev eth1 root 2>/dev/null || true'',
        ''tc qdisc add dev eth1 root netem delay 100ms loss 1%'']
   \<and> issued (snd (apply_policy_endpoint sh_ok (Inr demo) (Some [''policy'' \<mapsto> ''slow_link''])
        start))
     = [''tc qdisc del dev eth1 root 2>/dev/null || true'',
        ''tc qdisc add dev eth1 root netem delay 100ms loss 1%'']
   \<and> issued (snd (clear_policy_endpoint sh_ok (Some [''policy'' \<mapsto> ''slow_link'']) start))
     = [''tc qdisc del dev eth1 root 2>/dev/null || true'']
   \<and> issued (snd (get_current_policy sh_ok
        (snd (apply_policy sh_ok (Inr demo) ''slow_link'' (Some ''eth0'') start))))
     = [''tc qdisc del dev eth0 root 2>/dev/null || true'',
        ''tc qdisc add dev eth0 root netem delay 100ms loss 1%'',
        ''tc qdisc show dev eth1'']
   \<and> fst (get_current_policy sh_ok
        (snd (apply_policy sh_ok (Inr demo) ''slow_link'' (Some ''eth0'') start)))
     = Inr (active ''slow_link'' slow_link, [])"
proof -
  let ?d = "[''policy'' \<mapsto> ''slow_link'']"
  have a: "issued (snd (apply_policy sh_ok (Inr demo) ''slow_link'' (Some ''eth1'') start))
     = [''tc qdisc del dev eth1 root 2>/dev/null || true'',
        ''tc qdisc add dev eth1 root netem delay 100ms loss 1%'']"
    by code_simp
  have b: "snd (apply_policy sh_ok (Inr demo) ''slow_link'' (Some ''eth0'') start)
     = \<lparr>current_policy = active ''slow_link'' slow_link,
        issued = [''tc qdisc del dev eth0 root 2>/dev/null || true'',
        ''tc qdisc add dev eth0 root netem delay 100ms loss 1%'']\<rparr>"
    by code_simp
  have c: "sh_ok [''tc qdisc del dev eth0 root 2>/dev/null || true'',
        ''tc qdisc add dev eth0 root netem delay 100ms loss 1%''] ''tc qdisc show dev eth1''
      = Exited 0 [] []"
    by (simp add: sh_ok_def)
  have d: "?d ''interface'' = None" by simp
  have e: "issued (snd (apply_policy_endpoint sh_ok (Inr demo)
        (Some (?d(''interface'' \<mapsto> ''eth1''))) start))
     = [''tc qdisc del dev eth1 root 2>/dev/null || true'',
        ''tc qdisc add dev eth1 root netem delay 100ms loss 1%'']"
    by code_simp
  have f: "issued (snd (clear_policy_endpoint sh_ok (Some [''interface'' \<mapsto> ''eth1'']) start))
     = [''tc qdisc del dev eth1 root 2>/dev/null || true'']"
    by code_simp
  note t1 = default_interface_eth1 [where sh = sh_ok and w = start and pf = "Inr demo"
      and q = "''slow_link''" and data = ?d and sh' = sh_ok and a = "Some ''eth1''"]
  note t0 = default_interface_eth1 [where sh = sh_ok and w = start and pf = "Inr demo"
      and q = "''slow_link''" and data = ?d and sh' = sh_ok and a = "Some ''eth0''"]
  from t1 a have 1: "issued (snd (apply_policy sh_ok (Inr demo) ''slow_link'' None start))
     = [''tc qdisc del dev eth1 root 2>/dev/null || true'',
        ''tc qdisc add dev eth1 root netem delay 100ms loss 1%'']"
    by simp
  from t1 d e have 2: "issued (snd (apply_policy_endpoint sh_ok (Inr demo) (Some ?d) start))
     = [''tc qdisc del dev eth1 root 2>/dev/null || true'',
        ''tc qdisc add dev eth1 root netem delay 100ms loss 1%'']"
    by simp
  from t1 d f have 3: "issued (snd (clear_policy_endpoint sh_ok (Some [''policy'' \<mapsto> ''slow_link'']) start))
     = [''tc qdisc del dev eth1 root 2>/dev/null || true'']"
    by simp
  from t0 b c
  have 4: "issued (snd (get_current_policy sh_ok
        (snd (apply_policy sh_ok (Inr demo) ''slow_link'' (Some ''eth0'') start))))
     = [''tc qdisc del dev eth0 root 2>/dev/null || true'',
        ''tc qdisc add dev eth0 root netem delay 100ms loss 1%'',
        ''tc qdisc show dev eth1'']
   \<and> fst (get_current_policy sh_ok
        (snd (apply_policy sh_ok (Inr demo) ''slow_link'' (Some ''eth0'') start)))
     = Inr (active ''slow_link'' slow_link, [])"
    by simp
  from 1 2 3 4 show ?thesis by blast
qed

subsection \<open>The netem command\<close>

text \<open>
  Claim C8. The command of a netem policy is the fixed prefix
  \<open>tc qdisc add dev <interface> root netem\<close> followed by the fields of the list
  delay, jitter, loss, rate in this order, each present one rendered with its keyword
  (jitter has none) and each absent one contributing nothing; the order is that of the
  list for every subset of present attributes. Applying a netem policy issues the
  clearing command and this one command, nothing else.
\<close>

theorem netem_one_command_fixed_order:
  "netem_cmd interface p =
     ''tc qdisc add dev '' @ interface @ '' root netem''
       @ concat (map (\<lambda>(keyword, v). case v of None \<Rightarrow> [] | Some s \<Rightarrow> keyword @ s)
           [('' delay '', delay p), ('' '', jitter p), ('' loss '', loss p), ('' rate '', rate p)])
   \<and> (q \<noteq> ''no_shaping'' \<and> policies q = Some p \<and> p_type p = Some ''netem'' \<longrightarrow>
        issued (snd (apply_policy sh (Inr policies) q a w))
          = issued w @ [clear_cmd (arg_interface a), netem_cmd (arg_interface a) p])"
  by (simp add: netem_cmd_def Let_def apply_netem execute_issued split: option.splits)

theorem netem_one_command_fixed_order_witness:
  "netem_cmd ''eth1'' slow_link = ''tc qdisc add dev eth1 root netem delay 100ms loss 1%''
   \<and> issued (snd (apply_policy sh_ok (Inr demo) ''slow_link'' (Some ''eth1'') start))
     = [''tc qdisc del dev eth1 root 2>/dev/null || true'',
        ''tc qdisc add dev eth1 root netem delay 100ms loss 1%'']"
proof -
  have h: "''slow_link'' \<noteq> ''no_shaping'' \<and> demo ''slow_link'' = Some slow_link
      \<and> p_type slow_link = Some ''netem''"
    by (simp add: demo_def slow_link_def blank_def)
  from netem_one_command_fixed_order [of "''eth1''" slow_link "''slow_link''" demo sh_ok
      "Some ''eth1''" start] h
  show ?thesis
    by (simp add: slow_link_def blank_def start_def clear_cmd_def)
qed

subsection \<open>The types apply_policy knows\<close>

text \<open>
  A catalog entry of type \<open>none\<close> under a name other than \<open>no_shaping\<close> is
  answered with \<open>Unknown policy type: none\<close>.
\<close>

theorem unknown_type_none_counterexample:
  "demo ''passthrough'' = Some none_config \<and> p_type none_config = Some ''none''
   \<and> fst (apply_policy sh_ok (Inr demo) ''passthrough'' (Some ''eth1'') start)
       = Inr ((resp False)\<lparr>error := Some ''Unknown policy type: none''\<rparr>)"
  by (simp add: apply_unknown_type [where t = "''none''"] demo_def none_config_def)

text \<open>
  Claim C5, as amended. For a catalog entry applied under a name other than
  \<open>no_shaping\<close>: when its type is \<open>cake\<close>, \<open>netem\<close> or \<open>htb\<close> the answer is
  never an unknown-type failure, and for every other type, \<open>none\<close> included, the
  answer is the failure \<open>Unknown policy type: <type>\<close>, which names the type.
\<close>

theorem unknown_type_iff_not_dispatched:
  assumes "q \<noteq> ''no_shaping''" and "policies q = Some p" and "p_type p = Some t"
  shows "(t \<in> {''cake'', ''netem'', ''htb''} \<longrightarrow>
            (\<forall>k. fst (apply_policy sh (Inr policies) q a w)
                   \<noteq> Inr ((resp False)\<lparr>error := Some (''Unknown policy type: '' @ k)\<rparr>)))
    \<and> (t \<notin> {''cake'', ''netem'', ''htb''} \<longrightarrow>
            fst (apply_policy sh (Inr policies) q a w)
              = Inr ((resp False)\<lparr>error := Some (''Unknown policy type: '' @ t)\<rparr>))"
proof -
  have c: "fst (apply_policy sh (Inr policies) q a w)
      \<noteq> Inr ((resp False)\<lparr>error := Some (''Unknown policy type: '' @ k)\<rparr>)"
    if "t = ''cake''" for k
  proof (cases "cake_cmd (arg_interface a) p")
    case (Inl e)
    with assms that show ?thesis by (simp add: apply_cake)
  next
    case (Inr cmd)
    from execute_has_command [of sh q p cmd "cleared a w"] obtain d where
      "fst (execute sh q p cmd (cleared a w)) = Inr d" "command d = Some cmd" by blast
    with assms that Inr show ?thesis by (auto simp: apply_cake resp_def)
  qed
  have n: "fst (apply_policy sh (Inr policies) q a w)
      \<noteq> Inr ((resp False)\<lparr>error := Some (''Unknown policy type: '' @ k)\<rparr>)"
    if "t = ''netem''" for k
  proof -
    from execute_has_command [of sh q p "netem_cmd (arg_interface a) p" "cleared a w"]
    obtain d where "fst (execute sh q p (netem_cmd (arg_interface a) p) (cleared a w)) = Inr d"
      "command d = Some (netem_cmd (arg_interface a) p)" by blast
    with assms that show ?thesis by (auto simp: apply_netem resp_def)
  qed
  have h: "fst (apply_policy sh (Inr policies) q a w)
      \<noteq> Inr ((resp False)\<lparr>error := Some (''Unknown policy type: '' @ k)\<rparr>)"
    if "t = ''htb''" for k
    using assms that
    by (cases "htb_commands (arg_interface a) p") (simp_all add: apply_htb htb_result_not_unknown)
  have u: "fst (apply_policy sh (Inr policies) q a w)
              = Inr ((resp False)\<lparr>error := Some (''Unknown policy type: '' @ t)\<rparr>)"
    if "t \<notin> {''cake'', ''netem'', ''htb''}"
    using assms that by (simp add: apply_unknown_type)
  from c n h u show ?thesis by blast
qed

theorem unknown_type_iff_not_dispatched_witness:
  "fst (apply_policy sh_ok (Inr demo) ''passthrough'' None start)
     = Inr ((resp False)\<lparr>error := Some ''Unknown policy type: none''\<rparr>)
   \<and> fst (apply_policy sh_ok (Inr demo) ''slow_link'' None start)
     \<noteq> Inr ((resp False)\<lparr>error := Some ''Unknown policy type: netem''\<rparr>)"
proof -
  have 1: "''passthrough'' \<noteq> ''no_shaping''" and 2: "demo ''passthrough'' = Some none_config"
    and 3: "p_type none_config = Some ''none''"
    and 4: "''slow_link'' \<noteq> ''no_shaping''" and 5: "demo ''slow_link'' = Some slow_link"
    and 6: "p_type slow_link = Some ''netem''"
    by (simp_all add: demo_def none_config_def slow_link_def blank_def)
  from unknown_type_iff_not_dispatched [where q = "''passthrough''" and policies = demo
      and p = none_config and t = "''none''" and sh = sh_ok and a = None and w = start, OF 1 2 3]
  have "fst (apply_policy sh_ok (Inr demo) ''passthrough'' None start)
     = Inr ((resp False)\<lparr>error := Some ''Unknown policy type: none''\<rparr>)" by simp
  moreover from unknown_type_iff_not_dispatched [where q = "''slow_link''" and policies = demo
      and p = slow_link and t = "''netem''" and sh = sh_ok and a = None and w = start, OF 4 5 6]
  have "fst (apply_policy sh_ok (Inr demo) ''slow_link'' None start)
     \<noteq> Inr ((resp False)\<lparr>error := Some (''Unknown policy type: '' @ ''netem'')\<rparr>)" by blast
  ultimately show ?thesis by simp
qed

subsection \<open>The first command that fails\<close>



subsection \<open>The commands of an htb policy\<close>

text \<open>
  Claim C4. For an htb policy that has \<open>total_bandwidth\<close> and \<open>classes\<close>, every
  class with a \<open>rate\<close>, and for every interface, the commands compiled are
  \<open>2 + 2 * N\<close> for \<open>N\<close> classes: the root qdisc, the aggregate class 1:1 with the
  total bandwidth, and then for the class at position \<open>k\<close> of the list (from 0) the
  command that adds class \<open>1:(10 + k)\<close> with its rate and its ceiling (the rate when
  absent) followed by the command that attaches \<open>fq_codel\<close> to it under the handle
  \<open>(10 + k):\<close>. The identifiers 10, ..., 10 + N - 1 are rendered by distinct texts,
  so none is used twice. The sequence is a function of the interface, the total
  bandwidth and the classes alone: every descriptor with the same two attributes,
  the same descriptor compiled again included, gives the same sequence.
\<close>

theorem htb_compile:
  assumes tb: "total_bandwidth p = Some tb" and cs: "classes p = Some cs"
    and rates: "\<forall>c\<in>set cs. c_rate c \<noteq> None"
  shows "\<exists>cmds. htb_commands interface p = Inr cmds
    \<and> length cmds = 2 + 2 * length cs
    \<and> cmds ! 0 = ''tc qdisc add dev '' @ interface @ '' root handle 1: htb default 30''
    \<and> cmds ! 1 = ''tc class add dev '' @ interface @ '' parent 1: classid 1:1 htb rate '' @ tb
    \<and> (\<forall>k<length cs. \<exists>r. c_rate (cs ! k) = Some r
          \<and> cmds ! (2 + 2 * k) = class_add_cmd interface (10 + k) r
               (case c_ceil (cs ! k) of None \<Rightarrow> r | Some c \<Rightarrow> c)
          \<and> cmds ! (3 + 2 * k) = leaf_cmd interface (10 + k))
    \<and> (\<forall>j<length cs. \<forall>k<length cs. str_nat (10 + j) = str_nat (10 + k) \<longrightarrow> j = k)
    \<and> (\<forall>p'. total_bandwidth p' = total_bandwidth p \<and> classes p' = classes p
          \<longrightarrow> htb_commands interface p' = Inr cmds)"
proof -
  from class_commands_ok [OF rates, of interface 10] obtain cmds where
    c: "class_commands interface 10 cs = Inr cmds"
    and l: "length cmds = 2 * length cs"
    and n: "\<forall>k<length cs. \<exists>r. c_rate (cs ! k) = Some r
          \<and> cmds ! (2 * k) = class_add_cmd interface (10 + k) r
               (case c_ceil (cs ! k) of None \<Rightarrow> r | Some c \<Rightarrow> c)
          \<and> cmds ! (2 * k + 1) = leaf_cmd interface (10 + k)"
    by blast
  let ?root = "''tc qdisc add dev '' @ interface @ '' root handle 1: htb default 30''"
  let ?agg = "''tc class add dev '' @ interface @ '' parent 1: classid 1:1 htb rate '' @ tb"
  let ?all = "?root # ?agg # cmds"
  have e: "htb_commands interface p = Inr ?all"
    using tb cs c by (simp add: htb_commands_def)
  have len: "length ?all = 2 + 2 * length cs" using l by simp
  have h0: "?all ! 0 = ?root" by simp
  have h1: "?all ! 1 = ?agg" by simp
  have nth: "\<exists>r. c_rate (cs ! k) = Some r
          \<and> ?all ! (2 + 2 * k) = class_add_cmd interface (10 + k) r
               (case c_ceil (cs ! k) of None \<Rightarrow> r | Some c \<Rightarrow> c)
          \<and> ?all ! (3 + 2 * k) = leaf_cmd interface (10 + k)"
    if "k < length cs" for k
  proof -
    from n that obtain r where r: "c_rate (cs ! k) = Some r"
      "cmds ! (2 * k) = class_add_cmd interface (10 + k) r
               (case c_ceil (cs ! k) of None \<Rightarrow> r | Some c \<Rightarrow> c)"
      "cmds ! (2 * k + 1) = leaf_cmd interface (10 + k)" by blast
    have a: "?all ! (2 + 2 * k) = cmds ! (2 * k)" by simp
    have "3 + 2 * k = Suc (Suc (Suc (2 * k)))" by simp
    then have "?all ! (3 + 2 * k) = cmds ! Suc (2 * k)" by simp
    then have b: "?all ! (3 + 2 * k) = cmds ! (2 * k + 1)" by simp
    from r a b show ?thesis by simp
  qed
  have ids: "\<forall>j<length cs. \<forall>k<length cs. str_nat (10 + j) = str_nat (10 + k) \<longrightarrow> j = k"
    by (auto dest: str_nat_inj)
  have det: "htb_commands interface p' = Inr ?all"
    if "total_bandwidth p' = total_bandwidth p \<and> classes p' = classes p" for p'
    using that tb cs c by (simp add: htb_commands_def)
  from e len h0 h1 nth ids det show ?thesis by blast
qed

theorem htb_compile_witness:
  "htb_commands ''eth1'' tiered = Inr [''tc qdisc add dev eth1 root handle 1: htb default 30'',
      ''tc class add dev eth1 parent 1: classid 1:1 htb rate 100mbit'',
      ''tc class add dev eth1 parent 1:1 classid 1:10 htb rate 50mbit ceil 100mbit'',
      ''tc qdisc add dev eth1 parent 1:10 handle 10: fq_codel'',
      ''tc class add dev eth1 parent 1:1 classid 1:11 htb rate 30mbit ceil 30mbit'',
      ''tc qdisc add dev eth1 parent 1:11 handle 11: fq_codel'',
      ''tc class add dev eth1 parent 1:1 classid 1:12 htb rate 20mbit ceil 20mbit'',
      ''tc qdisc add dev eth1 parent 1:12 handle 12: fq_codel'']
   \<and> (\<exists>cmds. htb_commands ''eth1'' tiered = Inr cmds \<and> length cmds = 8)"
proof -
  let ?cs = "[\<lparr>c_rate = Some ''50mbit'', c_ceil = Some ''100mbit''\<rparr>,
              \<lparr>c_rate = Some ''30mbit'', c_ceil = None\<rparr>,
              \<lparr>c_rate = Some ''20mbit'', c_ceil = None\<rparr>]"
  have tb: "total_bandwidth tiered = Some ''100mbit''"
    and cs: "classes tiered = Some ?cs"
    and rates: "\<forall>c\<in>set ?cs. c_rate c \<noteq> None"
    by (simp_all add: tiered_def blank_def)
  from htb_compile [OF tb cs rates, of "''eth1''"]
  have "\<exists>cmds. htb_commands ''eth1'' tiered = Inr cmds \<and> length cmds = 8" by auto
  moreover have "htb_commands ''eth1'' tiered = Inr [''tc qdisc add dev eth1 root handle 1: htb default 30'',
      ''tc class add dev eth1 parent 1: classid 1:1 htb rate 100mbit'',
      ''tc class add dev eth1 parent 1:1 classid 1:10 htb rate 50mbit ceil 100mbit'',
      ''tc qdisc add dev eth1 parent 1:10 handle 10: fq_codel'',
      ''tc class add dev eth1 parent 1:1 classid 1:11 htb rate 30mbit ceil 30mbit'',
      ''tc qdisc add dev eth1 parent 1:11 handle 11: fq_codel'',
      ''tc class add dev eth1 parent 1:1 classid 1:12 htb rate 20mbit ceil 20mbit'',
      ''tc qdisc add dev eth1 parent 1:12 handle 12: fq_codel'']"
    by (simp add: htb_commands_def tiered_def blank_def class_add_cmd_def leaf_cmd_def
        str_nat.simps)
  ultimately show ?thesis by blast
qed

end
